theory Spec2Isabelle
  imports Complex_Main
begin

section \<open>Python values used by the telemetry display\<close>

text \<open>
  The program is \<^verbatim>\<open>main.py\<close>: \<^verbatim>\<open>BackendWorker.handle_xbee_message\<close> decodes one radio
  frame and emits a dictionary of four floats; \<^verbatim>\<open>LiveGraphWindow.update_data\<close> appends the
  dictionary's values to four lists; \<^verbatim>\<open>LiveGraphWindow.update_plot\<close> shows the last
  \<^verbatim>\<open>window_size\<close> values of each list against their global indices.

  A frame's payload is a byte string, written here as a \<^typ>\<open>string\<close> (a HOL character is
  one byte). A Python \<^verbatim>\<open>str\<close> is a list of Unicode code points.
\<close>

type_synonym str = "nat list"

text \<open>The code points of an ASCII literal.\<close>

definition py :: "string \<Rightarrow> str" where
  "py cs = map of_char cs"

text \<open>
  A Python \<^verbatim>\<open>float\<close>. \<open>Finite q\<close> carries the exact value \<open>q\<close> of the decimal literal that
  was read; CPython rounds it to the nearest binary64 number, and that rounding (with the
  sign of a zero) is not part of the model. What is modelled is whether the result
  is a number, an infinity (\<open>Inf True\<close> is the negative one) or a NaN.
\<close>

datatype pyfloat = Finite rat | Inf bool | NaN

text \<open>The list elements and dictionary values of the program: floats, and the integer
  default \<^verbatim>\<open>0\<close> of \<^verbatim>\<open>sensor_data.get(key, 0)\<close>.\<close>

datatype pyvalue = PyInt int | PyFloat pyfloat

datatype py_exception = UnicodeDecodeError | ValueError str | KeyError string

text \<open>A dictionary with string keys, in insertion order; \<^verbatim>\<open>d.get(key, default)\<close>.\<close>

type_synonym 'v dict = "(string \<times> 'v) list"

definition dict_get :: "'v dict \<Rightarrow> string \<Rightarrow> 'v \<Rightarrow> 'v" where
  "dict_get d key dflt = (case map_of d key of None \<Rightarrow> dflt | Some v \<Rightarrow> v)"


section \<open>\<^verbatim>\<open>bytes.decode()\<close>: strict UTF-8\<close>

definition is_cont :: "nat \<Rightarrow> bool" where
  "is_cont b \<longleftrightarrow> 0x80 \<le> b \<and> b \<le> 0xBF"

text \<open>The second byte of a three-byte sequence: no overlong forms after \<^verbatim>\<open>E0\<close>, no
  surrogates after \<^verbatim>\<open>ED\<close>.\<close>

definition second_of_3 :: "nat \<Rightarrow> nat \<Rightarrow> bool" where
  "second_of_3 b0 b1 \<longleftrightarrow>
     (if b0 = 0xE0 then 0xA0 \<le> b1 \<and> b1 \<le> 0xBF
      else if b0 = 0xED then 0x80 \<le> b1 \<and> b1 \<le> 0x9F
      else is_cont b1)"

text \<open>The second byte of a four-byte sequence: no overlong forms after \<^verbatim>\<open>F0\<close>, nothing
  above U+10FFFF after \<^verbatim>\<open>F4\<close>.\<close>

definition second_of_4 :: "nat \<Rightarrow> nat \<Rightarrow> bool" where
  "second_of_4 b0 b1 \<longleftrightarrow>
     (if b0 = 0xF0 then 0x90 \<le> b1 \<and> b1 \<le> 0xBF
      else if b0 = 0xF4 then 0x80 \<le> b1 \<and> b1 \<le> 0x8F
      else is_cont b1)"

text \<open>\<open>None\<close> is \<^verbatim>\<open>UnicodeDecodeError\<close>.\<close>

fun utf8_decode :: "nat list \<Rightarrow> str option" where
  "utf8_decode [] = Some []"
| "utf8_decode (b0 # bs) =
    (if b0 < 0x80 then map_option (Cons b0) (utf8_decode bs)
     else if 0xC2 \<le> b0 \<and> b0 \<le> 0xDF then
       (case bs of
          b1 # r \<Rightarrow>
            if is_cont b1
            then map_option (Cons ((b0 - 0xC0) * 0x40 + (b1 - 0x80))) (utf8_decode r)
            else None
        | _ \<Rightarrow> None)
     else if 0xE0 \<le> b0 \<and> b0 \<le> 0xEF then
       (case bs of
          b1 # b2 # r \<Rightarrow>
            if second_of_3 b0 b1 \<and> is_cont b2
            then map_option
                   (Cons ((b0 - 0xE0) * 0x1000 + (b1 - 0x80) * 0x40 + (b2 - 0x80)))
                   (utf8_decode r)
            else None
        | _ \<Rightarrow> None)
     else if 0xF0 \<le> b0 \<and> b0 \<le> 0xF4 then
       (case bs of
          b1 # b2 # b3 # r \<Rightarrow>
            if second_of_4 b0 b1 \<and> is_cont b2 \<and> is_cont b3
            then map_option
                   (Cons ((b0 - 0xF0) * 0x40000 + (b1 - 0x80) * 0x1000
                          + (b2 - 0x80) * 0x40 + (b3 - 0x80)))
                   (utf8_decode r)
            else None
        | _ \<Rightarrow> None)
     else None)"

definition bytes_decode :: "string \<Rightarrow> str option" where
  "bytes_decode raw = utf8_decode (map of_char raw)"


section \<open>\<^verbatim>\<open>str.strip()\<close> and \<^verbatim>\<open>str.split(",")\<close>\<close>

text \<open>The code points for which \<^verbatim>\<open>str.isspace\<close> holds; \<^verbatim>\<open>strip()\<close> removes them at
  both ends.\<close>

definition isspace :: "nat \<Rightarrow> bool" where
  "isspace c \<longleftrightarrow>
     (0x09 \<le> c \<and> c \<le> 0x0D) \<or> (0x1C \<le> c \<and> c \<le> 0x20) \<or> c = 0x85 \<or> c = 0xA0
     \<or> c = 0x1680 \<or> (0x2000 \<le> c \<and> c \<le> 0x200A) \<or> c = 0x2028 \<or> c = 0x2029
     \<or> c = 0x202F \<or> c = 0x205F \<or> c = 0x3000"

definition strip :: "str \<Rightarrow> str" where
  "strip s = rev (dropWhile isspace (rev (dropWhile isspace s)))"

text \<open>\<^verbatim>\<open>s.split(sep)\<close> for a one-character separator: always at least one field, empty
  fields kept.\<close>

fun split_sep :: "nat \<Rightarrow> str \<Rightarrow> str list" where
  "split_sep sep [] = [[]]"
| "split_sep sep (c # cs) =
    (if c = sep then [] # split_sep sep cs
     else (case split_sep sep cs of
             [] \<Rightarrow> [[c]]
           | p # ps \<Rightarrow> (c # p) # ps))"

definition comma :: nat where
  "comma = 0x2C"


section \<open>\<^verbatim>\<open>float(s)\<close> on a string\<close>

text \<open>
  CPython reads a float from a \<^verbatim>\<open>str\<close> in four steps: code points that are Unicode spaces
  or decimal digits are replaced by their ASCII counterparts; underscores between digits
  are removed; ASCII white space is removed at both ends; what is left must be, as a
  whole, a decimal literal or a spelling of infinity or NaN:
  \<^verbatim>\<open>[sign] (digits ["." [digits]] | "." digits) [("e"|"E") [sign] digits]\<close>, or
  \<^verbatim>\<open>[sign] ("inf" | "infinity" | "nan")\<close> in any letter case.

  The decimal value of a non-ASCII digit comes from the interpreter's Unicode database;
  it is the parameter \<open>todecimal\<close> of everything below, so that the results hold for
  every version of that database.
\<close>

definition Py_ISSPACE :: "nat \<Rightarrow> bool" where
  "Py_ISSPACE c \<longleftrightarrow> (0x09 \<le> c \<and> c \<le> 0x0D) \<or> c = 0x20"

definition Py_ISDIGIT :: "nat \<Rightarrow> bool" where
  "Py_ISDIGIT c \<longleftrightarrow> 0x30 \<le> c \<and> c \<le> 0x39"

definition Py_TOLOWER :: "nat \<Rightarrow> nat" where
  "Py_TOLOWER c = (if 0x41 \<le> c \<and> c \<le> 0x5A then c + 0x20 else c)"

text \<open>A code point that is neither ASCII, a space nor a decimal digit becomes \<^verbatim>\<open>?\<close> and
  ends the string, which then never reads as a float.\<close>

fun transform_chars :: "(nat \<Rightarrow> nat option) \<Rightarrow> str \<Rightarrow> str" where
  "transform_chars todecimal [] = []"
| "transform_chars todecimal (ch # s) =
    (if ch < 127 then ch # transform_chars todecimal s
     else if isspace ch then 0x20 # transform_chars todecimal s
     else (case todecimal ch of
             None \<Rightarrow> [0x3F]
           | Some d \<Rightarrow> (0x30 + d) # transform_chars todecimal s))"

definition transform_decimal_and_space_to_ascii :: "(nat \<Rightarrow> nat option) \<Rightarrow> str \<Rightarrow> str" where
  "transform_decimal_and_space_to_ascii todecimal s =
     (if list_all (\<lambda>ch. ch < 128) s then s else transform_chars todecimal s)"

text \<open>Underscores: allowed only after a digit and before a digit; \<open>prev\<close> is the
  previous character, NUL at the start. An embedded NUL is an error.\<close>

fun remove_underscores :: "nat \<Rightarrow> str \<Rightarrow> str option" where
  "remove_underscores prev [] = (if prev = 0x5F then None else Some [])"
| "remove_underscores prev (c # s) =
    (if c = 0 then None
     else if c = 0x5F then
       (if Py_ISDIGIT prev then remove_underscores c s else None)
     else if prev = 0x5F \<and> \<not> Py_ISDIGIT c then None
     else map_option (Cons c) (remove_underscores c s))"

definition parse_sign :: "str \<Rightarrow> bool \<times> str" where
  "parse_sign s =
     (case s of
        [] \<Rightarrow> (False, [])
      | c # r \<Rightarrow> if c = 0x2D then (True, r) else if c = 0x2B then (False, r) else (False, s))"

definition digits_value :: "str \<Rightarrow> nat" where
  "digits_value ds = foldl (\<lambda>a c. 10 * a + (c - 0x30)) 0 ds"

text \<open>The value \<open>\<plusminus> m * 10 ^ e\<close>. A value that rounds beyond the largest binary64 number
  becomes an infinity (\<^verbatim>\<open>float("1e999")\<close> is \<^verbatim>\<open>inf\<close>, not an error).\<close>

definition make_float :: "bool \<Rightarrow> nat \<Rightarrow> int \<Rightarrow> pyfloat" where
  "make_float neg m e =
     (let q = (if 0 \<le> e then of_nat m * 10 ^ nat e else of_nat m / 10 ^ nat (- e)) :: rat
      in if 2 ^ 1024 - 2 ^ 970 \<le> q then Inf neg
         else Finite (if neg then - q else q))"

text \<open>A decimal literal that fills the whole string.\<close>

definition parse_decimal :: "str \<Rightarrow> pyfloat option" where
  "parse_decimal s =
     (let (neg, s1) = parse_sign s;
          ip = takeWhile Py_ISDIGIT s1;
          s2 = dropWhile Py_ISDIGIT s1;
          (fp, s3) = (case s2 of
                        [] \<Rightarrow> ([], [])
                      | c # r \<Rightarrow>
                          if c = 0x2E then (takeWhile Py_ISDIGIT r, dropWhile Py_ISDIGIT r)
                          else ([], s2))
      in if ip = [] \<and> fp = [] then None
         else (case s3 of
                 [] \<Rightarrow> Some (make_float neg (digits_value (ip @ fp)) (- int (length fp)))
               | c # r \<Rightarrow>
                   if c = 0x65 \<or> c = 0x45 then
                     (let (eneg, ed) = parse_sign r
                      in if ed \<noteq> [] \<and> list_all Py_ISDIGIT ed
                         then Some (make_float neg (digits_value (ip @ fp))
                                (( if eneg then - int (digits_value ed) else int (digits_value ed))
                                 - int (length fp)))
                         else None)
                   else None))"

definition parse_inf_or_nan :: "str \<Rightarrow> pyfloat option" where
  "parse_inf_or_nan s =
     (let (neg, r) = parse_sign s; l = map Py_TOLOWER r
      in if l = py ''inf'' \<or> l = py ''infinity'' then Some (Inf neg)
         else if l = py ''nan'' then Some NaN
         else None)"

definition string_to_double :: "str \<Rightarrow> pyfloat option" where
  "string_to_double s =
     (case parse_decimal s of
        Some x \<Rightarrow> Some x
      | None \<Rightarrow> parse_inf_or_nan s)"

definition float_from_string_inner :: "str \<Rightarrow> pyfloat option" where
  "float_from_string_inner s =
     string_to_double (rev (dropWhile Py_ISSPACE (rev (dropWhile Py_ISSPACE s))))"

text \<open>\<^verbatim>\<open>float(s)\<close>; \<open>None\<close> is \<^verbatim>\<open>ValueError\<close>.\<close>

definition float_of_str :: "(nat \<Rightarrow> nat option) \<Rightarrow> str \<Rightarrow> pyfloat option" where
  "float_of_str todecimal s =
     (let a = transform_decimal_and_space_to_ascii todecimal s
      in if 0x5F \<notin> set a then float_from_string_inner a
         else (case remove_underscores 0 a of
                 None \<Rightarrow> None
               | Some b \<Rightarrow> float_from_string_inner b))"


section \<open>\<^verbatim>\<open>BackendWorker.handle_xbee_message\<close>\<close>

text \<open>
  What one call does: it emits \<^verbatim>\<open>sensor_data_signal\<close> with the dictionary, or prints
  \<^verbatim>\<open>Unexpected message format:\<close> with the stripped text and returns, or catches an
  exception and prints \<^verbatim>\<open>Error processing XBee message:\<close> with it. It never raises.
\<close>

datatype outcome =
    Emit "pyvalue dict"
  | Unexpected_message_format str
  | Error_processing py_exception

text \<open>The dictionary display evaluates \<^verbatim>\<open>float(parts[1])\<close> first, then \<^verbatim>\<open>parts[0]\<close>,
  \<^verbatim>\<open>parts[2]\<close>, \<^verbatim>\<open>parts[3]\<close>; the first field that is not a float raises.\<close>

definition sensor_data_of :: "(nat \<Rightarrow> nat option) \<Rightarrow> str list \<Rightarrow> py_exception + pyvalue dict" where
  "sensor_data_of todecimal parts =
     (case float_of_str todecimal (parts ! 1) of
        None \<Rightarrow> Inl (ValueError (parts ! 1))
      | Some command \<Rightarrow>
     (case float_of_str todecimal (parts ! 0) of
        None \<Rightarrow> Inl (ValueError (parts ! 0))
      | Some setpoint \<Rightarrow>
     (case float_of_str todecimal (parts ! 2) of
        None \<Rightarrow> Inl (ValueError (parts ! 2))
      | Some measurement1 \<Rightarrow>
     (case float_of_str todecimal (parts ! 3) of
        None \<Rightarrow> Inl (ValueError (parts ! 3))
      | Some measurement2 \<Rightarrow>
          Inr [(''command'', PyFloat command),
               (''setpoint'', PyFloat setpoint),
               (''measurement1'', PyFloat measurement1),
               (''measurement2'', PyFloat measurement2)]))))"

definition handle_xbee_message :: "(nat \<Rightarrow> nat option) \<Rightarrow> string \<Rightarrow> outcome" where
  "handle_xbee_message todecimal raw =
     (case bytes_decode raw of
        None \<Rightarrow> Error_processing UnicodeDecodeError
      | Some text \<Rightarrow>
          (let data_str = strip text;
               parts = split_sep comma data_str
           in if length parts \<noteq> 4 then Unexpected_message_format data_str
              else (case sensor_data_of todecimal parts of
                      Inl e \<Rightarrow> Error_processing e
                    | Inr sensor_data \<Rightarrow> Emit sensor_data)))"


section \<open>\<^verbatim>\<open>LiveGraphWindow\<close>\<close>

text \<open>What \<^verbatim>\<open>curve.setData(x, y)\<close> last stored in a curve.\<close>

type_synonym curve = "int list \<times> pyvalue list"

record live_graph_window =
  window_size :: int
  data :: "pyvalue list dict"
  curves :: "curve dict"

definition channel_keys :: "string list" where
  "channel_keys = [''command'', ''setpoint'', ''measurement1'', ''measurement2'']"

text \<open>\<^verbatim>\<open>__init__\<close>: four empty lists, and one curve per key, plotted empty.\<close>

definition LiveGraphWindow_init :: live_graph_window where
  "LiveGraphWindow_init =
     \<lparr>window_size = 100,
      data = [(''command'', []), (''setpoint'', []), (''measurement1'', []),
              (''measurement2'', [])],
      curves = map (\<lambda>key. (key, ([], []))) channel_keys\<rparr>"

text \<open>\<^verbatim>\<open>update_data\<close>: every list of \<^verbatim>\<open>self.data\<close> gets the dictionary's value for its key,
  or \<^verbatim>\<open>0\<close>.\<close>

definition update_data :: "pyvalue dict \<Rightarrow> live_graph_window \<Rightarrow> live_graph_window" where
  "update_data sensor_data self =
     self\<lparr>data := map (\<lambda>(key, xs). (key, xs @ [dict_get sensor_data key (PyInt 0)]))
                      (data self)\<rparr>"

text \<open>The slice \<^verbatim>\<open>xs[start:]\<close>: a negative start counts from the end, and both kinds are
  clipped to the list.\<close>

definition slice_from :: "'a list \<Rightarrow> int \<Rightarrow> 'a list" where
  "slice_from xs start =
     (let n = int (length xs);
          i = (if start < 0 then max 0 (start + n) else min start n)
      in drop (nat i) xs)"

text \<open>\<^verbatim>\<open>list(range(a, b))\<close>.\<close>

definition range_list :: "int \<Rightarrow> int \<Rightarrow> int list" where
  "range_list a b = [a..b - 1]"

text \<open>The body of the loop of \<^verbatim>\<open>update_plot\<close>: the points given to one curve.\<close>

definition visible_points :: "int \<Rightarrow> pyvalue list \<Rightarrow> curve" where
  "visible_points ws full_data =
     (let y = (if ws \<le> int (length full_data) then slice_from full_data (- ws)
               else full_data);
          x_start = int (length full_data) - int (length y);
          x = range_list x_start (x_start + int (length y))
      in (x, y))"

text \<open>The loop over \<^verbatim>\<open>self.curves.items()\<close>; \<^verbatim>\<open>self.data[key]\<close> raises \<^verbatim>\<open>KeyError\<close> for a
  key that \<^verbatim>\<open>self.data\<close> does not have.\<close>

fun set_curves :: "int \<Rightarrow> pyvalue list dict \<Rightarrow> curve dict \<Rightarrow> py_exception + curve dict" where
  "set_curves ws d [] = Inr []"
| "set_curves ws d ((key, curve) # rest) =
    (case map_of d key of
       None \<Rightarrow> Inl (KeyError key)
     | Some full_data \<Rightarrow>
         (case set_curves ws d rest of
            Inl e \<Rightarrow> Inl e
          | Inr cs \<Rightarrow> Inr ((key, visible_points ws full_data) # cs)))"

definition update_plot :: "live_graph_window \<Rightarrow> py_exception + live_graph_window" where
  "update_plot self =
     (case set_curves (window_size self) (data self) (curves self) of
        Inl e \<Rightarrow> Inl e
      | Inr cs \<Rightarrow> Inr (self\<lparr>curves := cs\<rparr>))"


section \<open>From the radio to the window\<close>

text \<open>
  \<^verbatim>\<open>main\<close> connects \<^verbatim>\<open>sensor_data_signal\<close> to \<^verbatim>\<open>update_data\<close>: an emitted dictionary
  reaches the window, in the order of emission; a frame that only printed a diagnostic
  leaves the window as it was.
\<close>

definition deliver :: "outcome \<Rightarrow> live_graph_window \<Rightarrow> live_graph_window" where
  "deliver out self = (case out of Emit sensor_data \<Rightarrow> update_data sensor_data self | _ \<Rightarrow> self)"

text \<open>The callback runs once per received frame; the result is what each call did and
  the window after all of them.\<close>

definition receive_frames ::
  "(nat \<Rightarrow> nat option) \<Rightarrow> string list \<Rightarrow> live_graph_window \<Rightarrow> outcome list \<times> live_graph_window" where
  "receive_frames todecimal raws self =
     (let outs = map (handle_xbee_message todecimal) raws
      in (outs, fold deliver outs self))"


text \<open>A Unicode database with no decimal digit beyond ASCII, for closed examples; on an
  ASCII frame the database is never consulted.\<close>

definition ascii_digits_only :: "nat \<Rightarrow> nat option" where
  "ascii_digits_only ch = None"

text \<open>The example used below: three dictionaries that carry the setpoints 1, 2 and 3 (and
  no other key).\<close>

definition setpoints_1_2_3 :: "pyvalue dict list" where
  "setpoints_1_2_3 =
     [[(''setpoint'', PyFloat (Finite 1))], [(''setpoint'', PyFloat (Finite 2))],
      [(''setpoint'', PyFloat (Finite 3))]]"


section \<open>The decoder, case by case\<close>

lemma utf8_decode_ascii: "list_all (\<lambda>b. b < 0x80) bs \<Longrightarrow> utf8_decode bs = Some bs"
  by (induction bs) auto

lemma bytes_decode_ascii:
  "list_all (\<lambda>c. (of_char c :: nat) < 0x80) raw \<Longrightarrow> bytes_decode raw = Some (py raw)"
  unfolding bytes_decode_def py_def by (rule utf8_decode_ascii) (simp add: list_all_iff)

lemma handle_undecodable:
  "bytes_decode raw = None \<Longrightarrow> handle_xbee_message D raw = Error_processing UnicodeDecodeError"
  by (simp add: handle_xbee_message_def)

lemma handle_wrong_count:
  "bytes_decode raw = Some text \<Longrightarrow> length (split_sep comma (strip text)) \<noteq> 4 \<Longrightarrow>
   handle_xbee_message D raw = Unexpected_message_format (strip text)"
  by (simp add: handle_xbee_message_def)

lemma handle_four_parts:
  "bytes_decode raw = Some text \<Longrightarrow> length (split_sep comma (strip text)) = 4 \<Longrightarrow>
   handle_xbee_message D raw =
     (case sensor_data_of D (split_sep comma (strip text)) of
        Inl e \<Rightarrow> Error_processing e
      | Inr sensor_data \<Rightarrow> Emit sensor_data)"
  by (simp add: handle_xbee_message_def)

lemma sensor_data_of_all_floats:
  "float_of_str D f1 = Some v1 \<Longrightarrow> float_of_str D f2 = Some v2 \<Longrightarrow>
   float_of_str D f3 = Some v3 \<Longrightarrow> float_of_str D f4 = Some v4 \<Longrightarrow>
   sensor_data_of D [f1, f2, f3, f4] =
     Inr [(''command'', PyFloat v2), (''setpoint'', PyFloat v1),
          (''measurement1'', PyFloat v3), (''measurement2'', PyFloat v4)]"
  by (simp add: sensor_data_of_def)

lemma length_four: "length xs = 4 \<Longrightarrow> \<exists>a b c d. xs = [a, b, c, d]"
  by (auto simp: numeral_eq_Suc length_Suc_conv)



lemma handle_emit_four:
  assumes "bytes_decode raw = Some text"
    and "split_sep comma (strip text) = [f1, f2, f3, f4]"
    and "float_of_str D f1 = Some v1" and "float_of_str D f2 = Some v2"
    and "float_of_str D f3 = Some v3" and "float_of_str D f4 = Some v4"
  shows "handle_xbee_message D raw =
     Emit [(''command'', PyFloat v2), (''setpoint'', PyFloat v1),
           (''measurement1'', PyFloat v3), (''measurement2'', PyFloat v4)]"
proof -
  have "length (split_sep comma (strip text)) = 4"
    using assms(2) by simp
  then show ?thesis
    using assms by (simp add: handle_four_parts sensor_data_of_all_floats)
qed

lemmas float_defs = float_of_str_def transform_decimal_and_space_to_ascii_def float_from_string_inner_def
  string_to_double_def parse_decimal_def parse_inf_or_nan_def parse_sign_def make_float_def digits_value_def
  Py_ISSPACE_def Py_ISDIGIT_def Py_TOLOWER_def py_def

lemma float_of_digit:
  "float_of_str D (py ''1'') = Some (Finite 1)" "float_of_str D (py ''2'') = Some (Finite 2)"
  "float_of_str D (py ''3'') = Some (Finite 3)" "float_of_str D (py ''4'') = Some (Finite 4)"
  "float_of_str D (py ''5'') = Some (Finite 5)" "float_of_str D (py ''6'') = Some (Finite 6)"
  "float_of_str D (py ''7'') = Some (Finite 7)" "float_of_str D (py ''8'') = Some (Finite 8)"
  by (simp_all add: float_defs)


lemma split_examples:
  "split_sep comma (strip (py ''1,2,3,4'')) = [py ''1'', py ''2'', py ''3'', py ''4'']"
  "split_sep comma (strip (py ''5,6,7,8'')) = [py ''5'', py ''6'', py ''7'', py ''8'']"
  "split_sep comma (strip (py ''1,2,x,4'')) = [py ''1'', py ''2'', py ''x'', py ''4'']"
  "split_sep comma (strip (py ''nan,1,inf,-Infinity'')) = [py ''nan'', py ''1'', py ''inf'', py ''-Infinity'']"
  "strip (py ''bad'') = py ''bad''" "length (split_sep comma (py ''bad'')) = 1"
  "strip (py ''1,2,3'') = py ''1,2,3''" "length (split_sep comma (py ''1,2,3'')) = 3"
  "strip (py ''1,2,3,4,5'') = py ''1,2,3,4,5''" "length (split_sep comma (py ''1,2,3,4,5'')) = 5"
  by (simp_all add: strip_def comma_def py_def isspace_def)

lemma handle_examples:
  "handle_xbee_message D ''1,2,3,4'' =
     Emit [(''command'', PyFloat (Finite 2)), (''setpoint'', PyFloat (Finite 1)),
           (''measurement1'', PyFloat (Finite 3)), (''measurement2'', PyFloat (Finite 4))]"
  "handle_xbee_message D ''5,6,7,8'' =
     Emit [(''command'', PyFloat (Finite 6)), (''setpoint'', PyFloat (Finite 5)),
           (''measurement1'', PyFloat (Finite 7)), (''measurement2'', PyFloat (Finite 8))]"
  "handle_xbee_message D ''bad'' = Unexpected_message_format (py ''bad'')"
  "handle_xbee_message D ''1,2,3'' = Unexpected_message_format (py ''1,2,3'')"
  "handle_xbee_message D ''1,2,3,4,5'' = Unexpected_message_format (py ''1,2,3,4,5'')"
proof -
  show "handle_xbee_message D ''1,2,3,4'' =
     Emit [(''command'', PyFloat (Finite 2)), (''setpoint'', PyFloat (Finite 1)),
           (''measurement1'', PyFloat (Finite 3)), (''measurement2'', PyFloat (Finite 4))]"
    by (rule handle_emit_four [OF bytes_decode_ascii split_examples(1) float_of_digit(1-4)]) simp
  show "handle_xbee_message D ''5,6,7,8'' =
     Emit [(''command'', PyFloat (Finite 6)), (''setpoint'', PyFloat (Finite 5)),
           (''measurement1'', PyFloat (Finite 7)), (''measurement2'', PyFloat (Finite 8))]"
    by (rule handle_emit_four [OF bytes_decode_ascii split_examples(2) float_of_digit(5-8)]) simp
  have "handle_xbee_message D ''bad'' = Unexpected_message_format (strip (py ''bad''))"
    by (rule handle_wrong_count [OF bytes_decode_ascii]) (simp_all add: split_examples)
  then show "handle_xbee_message D ''bad'' = Unexpected_message_format (py ''bad'')"
    by (simp add: split_examples)
  have "handle_xbee_message D ''1,2,3'' = Unexpected_message_format (strip (py ''1,2,3''))"
    by (rule handle_wrong_count [OF bytes_decode_ascii]) (simp_all add: split_examples)
  then show "handle_xbee_message D ''1,2,3'' = Unexpected_message_format (py ''1,2,3'')"
    by (simp add: split_examples)
  have "handle_xbee_message D ''1,2,3,4,5'' = Unexpected_message_format (strip (py ''1,2,3,4,5''))"
    by (rule handle_wrong_count [OF bytes_decode_ascii]) (simp_all add: split_examples)
  then show "handle_xbee_message D ''1,2,3,4,5'' = Unexpected_message_format (py ''1,2,3,4,5'')"
    by (simp add: split_examples)
qed


text \<open>On an ASCII frame nothing depends on the Unicode database: what is shown below
  for one database holds for all of them.\<close>

lemma float_of_str_ascii:
  "list_all (\<lambda>ch. ch < 128) s \<Longrightarrow> float_of_str D s = float_of_str D' s"
  by (simp add: float_of_str_def transform_decimal_and_space_to_ascii_def)

lemma set_strip: "set (strip s) \<subseteq> set s"
proof
  fix c assume "c \<in> set (strip s)"
  then have "c \<in> set (dropWhile isspace (rev (dropWhile isspace s)))"
    by (simp add: strip_def)
  then have "c \<in> set (rev (dropWhile isspace s))"
    by (rule set_dropWhileD)
  then show "c \<in> set s"
    by (auto dest: set_dropWhileD)
qed

lemma set_split_sep: "p \<in> set (split_sep sep s) \<Longrightarrow> set p \<subseteq> set s"
proof (induction s arbitrary: p)
  case Nil
  then show ?case by simp
next
  case (Cons c cs)
  show ?case
  proof (cases "c = sep")
    case True
    then show ?thesis using Cons by auto
  next
    case False
    show ?thesis
    proof (cases "split_sep sep cs")
      case Nil
      then show ?thesis using Cons.prems False by simp
    next
      case (Cons a rest)
      then have "set a \<subseteq> set cs" by (simp add: Cons.IH)
      moreover have "q \<in> set rest \<Longrightarrow> set q \<subseteq> set cs" for q
        using Cons by (simp add: Cons.IH)
      moreover have "p = c # a \<or> p \<in> set rest"
        using Cons.prems False Cons by simp
      ultimately show ?thesis by auto
    qed
  qed
qed

lemma sensor_data_of_ascii:
  assumes "length parts = 4" and "\<forall>p \<in> set parts. list_all (\<lambda>ch. ch < 128) p"
  shows "sensor_data_of D parts = sensor_data_of D' parts"
proof -
  obtain a b c d where parts: "parts = [a, b, c, d]"
    using assms(1) length_four by blast
  have "float_of_str D a = float_of_str D' a" "float_of_str D b = float_of_str D' b"
    "float_of_str D c = float_of_str D' c" "float_of_str D d = float_of_str D' d"
    using assms(2) by (simp_all add: parts float_of_str_ascii)
  then show ?thesis by (simp add: sensor_data_of_def parts cong: option.case_cong)
qed

lemma handle_xbee_message_ascii:
  assumes "list_all (\<lambda>c. (of_char c :: nat) < 0x80) raw"
  shows "handle_xbee_message D raw = handle_xbee_message D' raw"
proof -
  have dec: "bytes_decode raw = Some (py raw)"
    using assms by (rule bytes_decode_ascii)
  have ascii: "\<forall>ch \<in> set (py raw). ch < 128"
    using assms by (auto simp: py_def list_all_iff)
  show ?thesis
  proof (cases "length (split_sep comma (strip (py raw))) = 4")
    case False
    then show ?thesis using dec by (simp add: handle_wrong_count)
  next
    case True
    have "\<forall>p \<in> set (split_sep comma (strip (py raw))). list_all (\<lambda>ch. ch < 128) p"
      using ascii set_split_sep set_strip unfolding list_all_iff by blast
    then have "sensor_data_of D (split_sep comma (strip (py raw)))
        = sensor_data_of D' (split_sep comma (strip (py raw)))"
      by (rule sensor_data_of_ascii [OF True])
    then show ?thesis using dec True by (simp add: handle_four_parts)
  qed
qed


section \<open>The lists and the visible window\<close>

lemma data_update_data:
  "data (update_data sd self) =
     map (\<lambda>(key, xs). (key, xs @ [dict_get sd key (PyInt 0)])) (data self)"
  by (simp add: update_data_def)

lemma fold_update_data:
  "data (fold update_data ds self) =
     map (\<lambda>(key, xs). (key, xs @ map (\<lambda>sd. dict_get sd key (PyInt 0)) ds)) (data self)
   \<and> window_size (fold update_data ds self) = window_size self
   \<and> curves (fold update_data ds self) = curves self"
proof (induction ds arbitrary: self)
  case Nil
  show ?case by (simp add: case_prod_unfold)
next
  case (Cons sd ds)
  show ?case
    by (simp add: Cons.IH [of "update_data sd self"] data_update_data case_prod_unfold comp_def)
       (simp add: update_data_def)
qed

lemma map_of_map_values:
  "map_of (map (\<lambda>(key, xs). (key, f key xs)) kvs) k = map_option (f k) (map_of kvs k)"
  by (induction kvs) auto

lemma slice_from_last:
  "1 \<le> N \<Longrightarrow> N \<le> int (length xs) \<Longrightarrow> slice_from xs (- N) = drop (length xs - nat N) xs"
  by (simp add: slice_from_def Let_def max_def nat_diff_distrib')

lemma visible_points_window:
  assumes "1 \<le> N"
  shows "visible_points N full =
     ([int (length full) - int (min (length full) (nat N)) .. int (length full) - 1],
      drop (length full - nat N) full)"
proof (cases "N \<le> int (length full)")
  case True
  then have "min (length full) (nat N) = nat N" using assms by simp
  moreover have "length (drop (length full - nat N) full) = nat N"
    using True assms by simp
  ultimately show ?thesis
    using True assms by (simp add: visible_points_def slice_from_last range_list_def Let_def)
next
  case False
  then have "min (length full) (nat N) = length full" "length full - nat N = 0"
    by simp_all
  then show ?thesis
    using False by (simp add: visible_points_def range_list_def Let_def)
qed

lemma length_slice_from: "length (slice_from xs i) \<le> length xs"
  by (simp add: slice_from_def Let_def)

lemma visible_points_aligned:
  assumes "visible_points ws full = (x, y)"
  shows "length x = length y"
    and "Suc i < length x \<Longrightarrow> x ! Suc i = x ! i + 1"
    and "x \<noteq> [] \<Longrightarrow> last x = int (length full) - 1"
proof -
  define a where "a = int (length full) - int (length y)"
  have x: "x = [a .. a + int (length y) - 1]"
    using assms by (auto simp: visible_points_def range_list_def Let_def a_def)
  have "length y \<le> length full"
    using assms length_slice_from [of full "- ws"]
    by (auto simp: visible_points_def Let_def split: if_splits)
  show len: "length x = length y" by (simp add: x)
  show "x ! Suc i = x ! i + 1" if "Suc i < length x"
    using that len by (simp add: x)
  show "last x = int (length full) - 1" if "x \<noteq> []"
  proof -
    have "0 < length y" using that len by auto
    then have "last x = x ! (length y - 1)"
      using that len by (simp add: last_conv_nth)
    also have "\<dots> = a + int (length y - 1)"
      using \<open>0 < length y\<close> by (simp add: x)
    finally show ?thesis using \<open>0 < length y\<close> by (simp add: a_def of_nat_diff)
  qed
qed

lemma set_curves_lookup:
  "set_curves ws d cs = Inr cs' \<Longrightarrow> map_of cs' key = Some c \<Longrightarrow>
   \<exists>full. map_of d key = Some full \<and> c = visible_points ws full"
proof (induction cs arbitrary: cs')
  case Nil
  then show ?case by simp
next
  case (Cons kc cs)
  obtain k old where kc: "kc = (k, old)" by (cases kc)
  from Cons.prems(1) obtain full rest where
    full: "map_of d k = Some full" and rest: "set_curves ws d cs = Inr rest"
    and cs': "cs' = (k, visible_points ws full) # rest"
    by (auto simp: kc split: option.splits sum.splits)
  show ?case
  proof (cases "key = k")
    case True
    then show ?thesis using Cons.prems(2) full by (simp add: cs')
  next
    case False
    then have "map_of rest key = Some c" using Cons.prems(2) by (simp add: cs')
    then show ?thesis by (rule Cons.IH [OF rest])
  qed
qed

lemma map_of_map_keys:
  "k \<in> set ks \<Longrightarrow> map_of (map (\<lambda>k. (k, f k)) ks) k = Some (f k)"
  by (induction ks) auto

lemma data_after_appends:
  "data (fold update_data ds (LiveGraphWindow_init\<lparr>window_size := N\<rparr>)) =
     map (\<lambda>key. (key, map (\<lambda>sd. dict_get sd key (PyInt 0)) ds)) channel_keys"
  by (simp add: fold_update_data LiveGraphWindow_init_def channel_keys_def)

lemma update_plot_after_appends:
  "update_plot (fold update_data ds (LiveGraphWindow_init\<lparr>window_size := N\<rparr>)) =
     Inr ((fold update_data ds (LiveGraphWindow_init\<lparr>window_size := N\<rparr>))
            \<lparr>curves := map (\<lambda>key. (key, visible_points N
                                         (map (\<lambda>sd. dict_get sd key (PyInt 0)) ds)))
                            channel_keys\<rparr>)"
  by (simp add: update_plot_def fold_update_data)
     (simp add: LiveGraphWindow_init_def channel_keys_def)

lemma fold_deliver_Emit:
  "fold deliver (map Emit sds) self = fold update_data sds self"
  by (induction sds arbitrary: self) (simp_all add: deliver_def)


section \<open>The claims\<close>

text \<open>
  C1: a frame whose text splits on \<^verbatim>\<open>,\<close> into exactly four fields, each accepted by
  \<^verbatim>\<open>float\<close>, is emitted as a dictionary in which \<^verbatim>\<open>setpoint\<close> is the first field,
  \<^verbatim>\<open>command\<close> the second, \<^verbatim>\<open>measurement1\<close> the third and \<^verbatim>\<open>measurement2\<close> the fourth,
  although the dictionary is built with \<^verbatim>\<open>command\<close> first.
\<close>

theorem decode_positional_mapping:
  assumes "bytes_decode raw = Some text"
    and "split_sep comma (strip text) = [field1, field2, field3, field4]"
    and "float_of_str todecimal field1 = Some v1"
    and "float_of_str todecimal field2 = Some v2"
    and "float_of_str todecimal field3 = Some v3"
    and "float_of_str todecimal field4 = Some v4"
  shows "\<exists>sensor_data.
     handle_xbee_message todecimal raw = Emit sensor_data
     \<and> map fst sensor_data = channel_keys
     \<and> map_of sensor_data ''setpoint'' = Some (PyFloat v1)
     \<and> map_of sensor_data ''command'' = Some (PyFloat v2)
     \<and> map_of sensor_data ''measurement1'' = Some (PyFloat v3)
     \<and> map_of sensor_data ''measurement2'' = Some (PyFloat v4)"
  using handle_emit_four [OF assms] by (simp add: channel_keys_def)

theorem decode_positional_mapping_witness:
  "bytes_decode ''1,2,3,4'' = Some (py ''1,2,3,4'')
   \<and> split_sep comma (strip (py ''1,2,3,4'')) = [py ''1'', py ''2'', py ''3'', py ''4'']
   \<and> (\<exists>sensor_data.
        handle_xbee_message ascii_digits_only ''1,2,3,4'' = Emit sensor_data
        \<and> map fst sensor_data = channel_keys
        \<and> map_of sensor_data ''setpoint'' = Some (PyFloat (Finite 1))
        \<and> map_of sensor_data ''command'' = Some (PyFloat (Finite 2))
        \<and> map_of sensor_data ''measurement1'' = Some (PyFloat (Finite 3))
        \<and> map_of sensor_data ''measurement2'' = Some (PyFloat (Finite 4)))"
proof -
  have d: "bytes_decode ''1,2,3,4'' = Some (py ''1,2,3,4'')"
    by (rule bytes_decode_ascii) simp
  show ?thesis
    using d split_examples(1)
      decode_positional_mapping [OF d split_examples(1) float_of_digit(1-4),
        of ascii_digits_only]
    by blast
qed

text \<open>
  C2, as the spec states it, fails: the list behind a channel is never trimmed. After
  101 valid frames the list of \<^verbatim>\<open>command\<close> holds 101 values, more than the window size
  of 100.
\<close>

theorem backing_list_exceeds_window_size:
  "\<not> int (length (dict_get
         (data (snd (receive_frames ascii_digits_only (replicate 101 ''1,2,3,4'')
                       LiveGraphWindow_init)))
         ''command'' []))
      \<le> window_size (snd (receive_frames ascii_digits_only (replicate 101 ''1,2,3,4'')
                             LiveGraphWindow_init))"
proof -
  let ?sd = "[(''command'', PyFloat (Finite 2)), (''setpoint'', PyFloat (Finite 1)),
              (''measurement1'', PyFloat (Finite 3)), (''measurement2'', PyFloat (Finite 4))]"
  let ?self = "fold update_data (replicate 101 ?sd) LiveGraphWindow_init"
  have "map (handle_xbee_message ascii_digits_only) (replicate 101 ''1,2,3,4'')
      = map Emit (replicate 101 ?sd)"
    by (simp add: handle_examples(1))
  then have w: "snd (receive_frames ascii_digits_only (replicate 101 ''1,2,3,4'')
                       LiveGraphWindow_init) = ?self"
    by (simp only: receive_frames_def Let_def snd_conv fold_deliver_Emit)
  have d: "data ?self =
      map (\<lambda>(key, xs). (key, xs @ map (\<lambda>sd. dict_get sd key (PyInt 0)) (replicate 101 ?sd)))
        (data LiveGraphWindow_init)"
    using fold_update_data [of "replicate 101 ?sd" LiveGraphWindow_init] by (rule conjunct1)
  have n: "window_size ?self = window_size LiveGraphWindow_init"
    using fold_update_data [of "replicate 101 ?sd" LiveGraphWindow_init] by blast
  have "length (dict_get (data ?self) ''command'' []) = 101"
    unfolding d by (simp add: LiveGraphWindow_init_def dict_get_def)
  moreover have "window_size ?self = 100"
    unfolding n by (simp add: LiveGraphWindow_init_def)
  ultimately show ?thesis
    unfolding w by simp
qed

text \<open>
  C2, amended: for every channel and after every append, the list behind the channel
  holds all the values received so far, in arrival order, so that its length is the
  number of appends, without bound; only the slice that \<^verbatim>\<open>update_plot\<close> hands to the
  curve is bounded: for a window size \<open>N \<ge> 1\<close> it has \<open>min K N\<close> values after \<open>K\<close> appends.
\<close>

theorem backing_list_keeps_every_value:
  assumes "1 \<le> N" and "key \<in> set channel_keys"
  shows "map_of (data (fold update_data ds (LiveGraphWindow_init\<lparr>window_size := N\<rparr>))) key
           = Some (map (\<lambda>sd. dict_get sd key (PyInt 0)) ds)
     \<and> length (map (\<lambda>sd. dict_get sd key (PyInt 0)) ds) = length ds
     \<and> length (snd (visible_points N (map (\<lambda>sd. dict_get sd key (PyInt 0)) ds)))
         = min (length ds) (nat N)"
proof -
  have "map_of (data (fold update_data ds (LiveGraphWindow_init\<lparr>window_size := N\<rparr>))) key
           = Some (map (\<lambda>sd. dict_get sd key (PyInt 0)) ds)"
    unfolding data_after_appends using assms(2) by (rule map_of_map_keys)
  then show ?thesis
    using assms(1) by (simp add: visible_points_window)
qed

theorem backing_list_keeps_every_value_witness:
  "map_of (data (fold update_data setpoints_1_2_3 (LiveGraphWindow_init\<lparr>window_size := 2\<rparr>)))
       ''setpoint''
     = Some [PyFloat (Finite 1), PyFloat (Finite 2), PyFloat (Finite 3)]
   \<and> length (snd (visible_points 2 [PyFloat (Finite 1), PyFloat (Finite 2), PyFloat (Finite 3)]))
     = 2"
proof -
  have N: "(1::int) \<le> 2" by simp
  have key: "''setpoint'' \<in> set channel_keys" by (simp add: channel_keys_def)
  have vals: "map (\<lambda>sd. dict_get sd ''setpoint'' (PyInt 0)) setpoints_1_2_3
      = [PyFloat (Finite 1), PyFloat (Finite 2), PyFloat (Finite 3)]"
    by (simp add: setpoints_1_2_3_def dict_get_def)
  show ?thesis
    using backing_list_keeps_every_value [OF N key, of setpoints_1_2_3]
    unfolding vals by (simp add: setpoints_1_2_3_def)
qed




text \<open>
  C4: for every window size \<open>N \<ge> 1\<close> and every sequence of \<open>K\<close> dictionaries appended
  by \<^verbatim>\<open>update_data\<close>, \<^verbatim>\<open>update_plot\<close> gives each channel's curve exactly \<open>min K N\<close> points:
  the y values are the last \<open>N\<close> appended values of the channel in appended order (all of
  them while \<open>K < N\<close>), against the global indices \<open>K - min K N, \<dots>, K - 1\<close>. With
  \<open>N = 2\<close> and the appends 1, 2, 3 the curve is \<open>x = [1, 2]\<close>, \<open>y = [2, 3]\<close>.
\<close>
theorem window_holds_last_values:
  assumes "1 \<le> N" and "key \<in> set channel_keys"
  shows "\<exists>self'.
     update_plot (fold update_data ds (LiveGraphWindow_init\<lparr>window_size := N\<rparr>)) = Inr self'
     \<and> map_of (curves self') key =
         Some ([int (length ds) - int (min (length ds) (nat N)) .. int (length ds) - 1],
               drop (length ds - nat N) (map (\<lambda>sd. dict_get sd key (PyInt 0)) ds))
     \<and> length [int (length ds) - int (min (length ds) (nat N)) .. int (length ds) - 1]
         = min (length ds) (nat N)
     \<and> length (drop (length ds - nat N) (map (\<lambda>sd. dict_get sd key (PyInt 0)) ds))
         = min (length ds) (nat N)"
proof -
  have "map_of (map (\<lambda>key. (key, visible_points N (map (\<lambda>sd. dict_get sd key (PyInt 0)) ds)))
                  channel_keys) key
        = Some (visible_points N (map (\<lambda>sd. dict_get sd key (PyInt 0)) ds))"
    using assms(2) by (rule map_of_map_keys)
  moreover have "length [int (length ds) - int (min (length ds) (nat N)) .. int (length ds) - 1]
      = min (length ds) (nat N)"
    by simp
  moreover have "length (drop (length ds - nat N) (map (\<lambda>sd. dict_get sd key (PyInt 0)) ds))
      = min (length ds) (nat N)"
    by simp
  ultimately show ?thesis
    using assms(1) by (simp add: update_plot_after_appends visible_points_window)
qed

theorem window_holds_last_values_witness:
  "\<exists>self'.
     update_plot (fold update_data setpoints_1_2_3 (LiveGraphWindow_init\<lparr>window_size := 2\<rparr>))
       = Inr self'
     \<and> map_of (curves self') ''setpoint''
         = Some ([1, 2], [PyFloat (Finite 2), PyFloat (Finite 3)])"
proof -
  have N: "(1::int) \<le> 2" by simp
  have key: "''setpoint'' \<in> set channel_keys" by (simp add: channel_keys_def)
  have x: "[int (length setpoints_1_2_3) - int (min (length setpoints_1_2_3) (nat 2))
             .. int (length setpoints_1_2_3) - 1] = [1, 2]"
    by (simp add: setpoints_1_2_3_def upto.simps)
  have y: "drop (length setpoints_1_2_3 - nat 2)
             (map (\<lambda>sd. dict_get sd ''setpoint'' (PyInt 0)) setpoints_1_2_3)
           = [PyFloat (Finite 2), PyFloat (Finite 3)]"
    by (simp add: setpoints_1_2_3_def dict_get_def)
  show ?thesis
    using window_holds_last_values [OF N key, of setpoints_1_2_3] unfolding x y by blast
qed

text \<open>
  C5: in every curve that \<^verbatim>\<open>update_plot\<close> sets, \<open>x\<close> and \<open>y\<close> have the same length, each
  \<open>x\<close> value is its predecessor plus one, and the last \<open>x\<close> value is the length of the
  channel's list minus one, the global index of the newest sample.
\<close>

theorem snapshot_index_alignment:
  assumes "update_plot self = Inr self'"
    and "map_of (curves self') key = Some (x, y)"
  shows "\<exists>full_data.
     map_of (data self) key = Some full_data
     \<and> length x = length y
     \<and> (\<forall>i. Suc i < length x \<longrightarrow> x ! Suc i = x ! i + 1)
     \<and> (x \<noteq> [] \<longrightarrow> last x = int (length full_data) - 1)"
proof -
  from assms(1) obtain cs where
    cs: "set_curves (window_size self) (data self) (curves self) = Inr cs"
    and self': "self' = self\<lparr>curves := cs\<rparr>"
    by (auto simp: update_plot_def split: sum.splits)
  have "map_of cs key = Some (x, y)"
    using assms(2) by (simp add: self')
  with cs obtain full_data where
    full: "map_of (data self) key = Some full_data"
    and xy: "visible_points (window_size self) full_data = (x, y)"
    using set_curves_lookup by metis
  show ?thesis
    using full visible_points_aligned [OF xy] by blast
qed

theorem snapshot_index_alignment_witness:
  "update_plot (fold update_data setpoints_1_2_3 (LiveGraphWindow_init\<lparr>window_size := 2\<rparr>))
     = Inr ((fold update_data setpoints_1_2_3 (LiveGraphWindow_init\<lparr>window_size := 2\<rparr>))
              \<lparr>curves := map (\<lambda>key. (key, visible_points 2
                    (map (\<lambda>sd. dict_get sd key (PyInt 0)) setpoints_1_2_3))) channel_keys\<rparr>)
   \<and> visible_points 2 (map (\<lambda>sd. dict_get sd ''setpoint'' (PyInt 0)) setpoints_1_2_3)
       = ([1, 2], [PyFloat (Finite 2), PyFloat (Finite 3)])
   \<and> (\<exists>full_data.
        map_of (data (fold update_data setpoints_1_2_3
                        (LiveGraphWindow_init\<lparr>window_size := 2\<rparr>))) ''setpoint''
          = Some full_data
        \<and> length [1, 2 :: int] = length [PyFloat (Finite 2), PyFloat (Finite 3)]
        \<and> [1, 2 :: int] ! Suc 0 = [1, 2] ! 0 + 1
        \<and> last [1, 2 :: int] = int (length full_data) - 1)"
proof -
  let ?self = "fold update_data setpoints_1_2_3 (LiveGraphWindow_init\<lparr>window_size := 2\<rparr>)"
  let ?cs = "map (\<lambda>key. (key, visible_points 2
                (map (\<lambda>sd. dict_get sd key (PyInt 0)) setpoints_1_2_3))) channel_keys"
  have plot: "update_plot ?self = Inr (?self\<lparr>curves := ?cs\<rparr>)"
    by (rule update_plot_after_appends)
  have vis: "visible_points 2 (map (\<lambda>sd. dict_get sd ''setpoint'' (PyInt 0)) setpoints_1_2_3)
       = ([1, 2], [PyFloat (Finite 2), PyFloat (Finite 3)])"
    by (simp add: visible_points_window setpoints_1_2_3_def dict_get_def upto.simps)
  have "map_of ?cs ''setpoint''
      = Some (visible_points 2 (map (\<lambda>sd. dict_get sd ''setpoint'' (PyInt 0)) setpoints_1_2_3))"
    by (rule map_of_map_keys) (simp add: channel_keys_def)
  then have look: "map_of (curves (?self\<lparr>curves := ?cs\<rparr>)) ''setpoint''
      = Some ([1, 2], [PyFloat (Finite 2), PyFloat (Finite 3)])"
    by (simp add: vis)
  have "\<exists>full_data.
        map_of (data ?self) ''setpoint'' = Some full_data
        \<and> length [1, 2 :: int] = length [PyFloat (Finite 2), PyFloat (Finite 3)]
        \<and> (\<forall>i. Suc i < length [1, 2 :: int] \<longrightarrow> [1, 2 :: int] ! Suc i = [1, 2] ! i + 1)
        \<and> ([1, 2 :: int] \<noteq> [] \<longrightarrow> last [1, 2 :: int] = int (length full_data) - 1)"
    by (rule snapshot_index_alignment [OF plot look])
  then obtain full_data where
    "map_of (data ?self) ''setpoint'' = Some full_data"
    "last [1, 2 :: int] = int (length full_data) - 1"
    by blast
  then show ?thesis using plot vis by simp
qed

text \<open>
  C6: after \<^verbatim>\<open>update_data\<close> has run \<open>M\<close> times on a fresh window, each of the four lists
  has exactly \<open>M\<close> values: every call extends the four channels together by one.
\<close>

theorem all_channels_grow_together:
  "map (\<lambda>(key, xs). (key, length xs)) (data (fold update_data ds LiveGraphWindow_init))
     = [(''command'', length ds), (''setpoint'', length ds),
        (''measurement1'', length ds), (''measurement2'', length ds)]"
  by (simp add: fold_update_data) (simp add: LiveGraphWindow_init_def)


text \<open>
  C8: the call stops at \<^verbatim>\<open>Unexpected message format\<close> (the spec's MalformedFrame)
  exactly when the payload decodes and its stripped text splits on \<^verbatim>\<open>,\<close> into a number of
  fields other than 4; the frames \<^verbatim>\<open>1,2,3\<close> and \<^verbatim>\<open>1,2,3,4,5\<close> both end there, and nothing
  is emitted for them.
\<close>

theorem malformed_frame_iff_not_four_fields:
  "((\<exists>shown. handle_xbee_message todecimal raw = Unexpected_message_format shown) \<longleftrightarrow>
      (\<exists>text. bytes_decode raw = Some text \<and> length (split_sep comma (strip text)) \<noteq> 4))
   \<and> handle_xbee_message todecimal ''1,2,3'' = Unexpected_message_format (py ''1,2,3'')
   \<and> handle_xbee_message todecimal ''1,2,3,4,5'' = Unexpected_message_format (py ''1,2,3,4,5'')"
proof -
  have "(\<exists>shown. handle_xbee_message todecimal raw = Unexpected_message_format shown) \<longleftrightarrow>
      (\<exists>text. bytes_decode raw = Some text \<and> length (split_sep comma (strip text)) \<noteq> 4)"
  proof (cases "bytes_decode raw")
    case None
    then show ?thesis by (simp add: handle_undecodable)
  next
    case (Some decoded)
    show ?thesis
    proof (cases "length (split_sep comma (strip decoded)) = 4")
      case True
      then show ?thesis
        using Some by (simp add: handle_four_parts split: sum.splits)
    next
      case False
      then show ?thesis
        using Some by (simp add: handle_wrong_count)
    qed
  qed
  then show ?thesis by (simp add: handle_examples)
qed

text \<open>
  C9: \<^verbatim>\<open>update_plot\<close> on a window that has received nothing raises no exception and
  sets every one of the four curves to empty \<open>x\<close> and \<open>y\<close>, whatever the window size.
\<close>

theorem empty_read_gives_empty_curves:
  "update_plot (LiveGraphWindow_init\<lparr>window_size := N\<rparr>)
     = Inr (LiveGraphWindow_init
              \<lparr>window_size := N,
               curves := [(''command'', ([], [])), (''setpoint'', ([], [])),
                          (''measurement1'', ([], [])), (''measurement2'', ([], []))]\<rparr>)"
  by (simp add: update_plot_def LiveGraphWindow_init_def channel_keys_def visible_points_def
        slice_from_def range_list_def)

text \<open>
  C10: for every dictionary, with or without the four channel keys, \<^verbatim>\<open>update_data\<close>
  returns normally, keeps the keys of \<^verbatim>\<open>self.data\<close>, and extends the list of every key
  by exactly one element: the dictionary's value for the key, or the integer 0 when
  the dictionary has no such key.
\<close>

theorem update_data_appends_one_everywhere:
  "map fst (data (update_data sensor_data self)) = map fst (data self)
   \<and> (map_of (data self) key = Some xs \<longrightarrow>
        map_of (data (update_data sensor_data self)) key
          = Some (xs @ [case map_of sensor_data key of None \<Rightarrow> PyInt 0 | Some v \<Rightarrow> v]))"
proof -
  have "map_of (data (update_data sensor_data self)) key
      = map_option (\<lambda>xs. xs @ [dict_get sensor_data key (PyInt 0)]) (map_of (data self) key)"
    unfolding data_update_data by (rule map_of_map_values)
  then show ?thesis
    by (simp add: data_update_data dict_get_def comp_def case_prod_unfold)
qed

theorem update_data_appends_one_everywhere_witness:
  "map fst (data (update_data [(''setpoint'', PyFloat (Finite 5))] LiveGraphWindow_init))
     = channel_keys
   \<and> map_of (data LiveGraphWindow_init) ''command'' = Some []
   \<and> map_of (data (update_data [(''setpoint'', PyFloat (Finite 5))] LiveGraphWindow_init))
        ''command'' = Some [PyInt 0]
   \<and> map_of (data LiveGraphWindow_init) ''setpoint'' = Some []
   \<and> map_of (data (update_data [(''setpoint'', PyFloat (Finite 5))] LiveGraphWindow_init))
        ''setpoint'' = Some [PyFloat (Finite 5)]"
proof -
  have c: "map_of (data LiveGraphWindow_init) ''command'' = Some []"
    and s: "map_of (data LiveGraphWindow_init) ''setpoint'' = Some []"
    and k: "map fst (data LiveGraphWindow_init) = channel_keys"
    by (simp_all add: LiveGraphWindow_init_def channel_keys_def)
  show ?thesis
    using c s k
      update_data_appends_one_everywhere
        [of "[(''setpoint'', PyFloat (Finite 5))]" LiveGraphWindow_init "''command''" "[]"]
      update_data_appends_one_everywhere
        [of "[(''setpoint'', PyFloat (Finite 5))]" LiveGraphWindow_init "''setpoint''" "[]"]
    by simp
qed

end
